theory Spec2Isabelle
  imports Main "HOL-Library.Word"
begin

unbundle bit_operations_syntax

section \<open>Machine types\<close>

type_synonym u8 = "8 word"
type_synonym u16 = "16 word"
type_synonym u32 = "32 word"
type_synonym u64 = "64 word"

text \<open>
  C computes on operands of type \<open>__u8\<close> after promoting them to \<open>int\<close>, and an
  assignment to a \<open>__u8\<close> variable keeps the low eight bits of the result.
\<close>

abbreviation promote :: "u8 \<Rightarrow> u32" where
  "promote x \<equiv> ucast x"

abbreviation to_u8 :: "u32 \<Rightarrow> u8" where
  "to_u8 x \<equiv> ucast x"

section \<open>Short Audio Descriptors\<close>

text \<open>
  Modelled from the spec: \<open>struct short_audio_desc\<close> is declared in cec-follower.h, which
  is not among the sources. The spec (section 3) gives the record its fields: the channel
  count, the format code, and the format-dependent fields; \<open>sad_encode\<close> reads each of them
  as a byte.
\<close>

record short_audio_desc =
  num_channels :: u8
  format_code :: u8
  sample_freq_mask :: u8
  bit_depth_mask :: u8
  max_bitrate :: u8
  format_dependent :: u8
  wma_profile :: u8
  frame_length_mask :: u8
  mps :: u8
  extension_type_code :: u8

text \<open>
  Modelled from the spec: the format codes named in \<open>sad_encode\<close> are macros of
  cec-follower.h. The spec (section 4.1) gives their values: linear PCM is code 1, the
  profile-based format is code 14, the extended format is code 15.
\<close>

definition SAD_FMT_CODE_LPCM :: u8 where
  "SAD_FMT_CODE_LPCM = 1"

definition SAD_FMT_CODE_WMA_PRO :: u8 where
  "SAD_FMT_CODE_WMA_PRO = 14"

definition SAD_FMT_CODE_EXTENDED :: u8 where
  "SAD_FMT_CODE_EXTENDED = 15"

text \<open>
  The three extension type codes that \<open>sad_encode\<close> names are macros of cec-follower.h
  too, and the spec does not give their values: the encoder takes them as a parameter.
\<close>

record sad_ext_types =
  SAD_EXT_TYPE_MPEG_H_3D_AUDIO :: u8
  SAD_EXT_TYPE_AC_4 :: u8
  SAD_EXT_TYPE_LPCM_3D_AUDIO :: u8

text \<open>
  The case labels of a C \<open>switch\<close> are pairwise distinct (a duplicate label does not
  compile): these are the labels of the inner \<open>switch\<close> of \<open>sad_encode\<close>.
\<close>

definition ext_labels :: "sad_ext_types \<Rightarrow> u8 list" where
  "ext_labels h = [4, 5, 6, 8, 10, SAD_EXT_TYPE_MPEG_H_3D_AUDIO h, SAD_EXT_TYPE_AC_4 h,
     SAD_EXT_TYPE_LPCM_3D_AUDIO h]"

text \<open>Lines 104-105: byte 1, the channel count and the format code.\<close>

definition sad_b1 :: "short_audio_desc \<Rightarrow> u8" where
  "sad_b1 sad =
     (let b1 = to_u8 ((promote (num_channels sad) - 1) AND 0x07)
      in to_u8 (promote b1 OR push_bit 3 (promote (format_code sad) AND 0x0f)))"

text \<open>Line 107: byte 2, the sample frequencies.\<close>

definition sad_b2 :: "short_audio_desc \<Rightarrow> u8" where
  "sad_b2 sad = sample_freq_mask sad"

text \<open>
  Lines 133-154: byte 3 of the extended format, the inner \<open>switch\<close> on the extension
  type code. The two named 3D types fall through into the case of the third.
\<close>

definition sad_b3_extended :: "sad_ext_types \<Rightarrow> short_audio_desc \<Rightarrow> u8" where
  "sad_b3_extended h sad =
     (let etc = extension_type_code sad;
          b3 = to_u8 (push_bit 3 (promote etc AND 0x1f))
      in if etc = 4 \<or> etc = 5 \<or> etc = 6 then
           to_u8 (promote b3 OR push_bit 1 (promote (frame_length_mask sad) AND 0x03))
         else if etc = 8 \<or> etc = 10 then
           (let b3' = to_u8 (promote b3 OR push_bit 1 (promote (frame_length_mask sad) AND 0x03))
            in to_u8 (promote b3' OR (promote (mps sad) AND 1)))
         else if etc = SAD_EXT_TYPE_MPEG_H_3D_AUDIO h \<or> etc = SAD_EXT_TYPE_AC_4 h then
           (let b3' = to_u8 (promote b3 OR (promote (format_dependent sad) AND 0x07))
            in to_u8 (promote b3' OR (promote (bit_depth_mask sad) AND 0x07)))
         else if etc = SAD_EXT_TYPE_LPCM_3D_AUDIO h then
           to_u8 (promote b3 OR (promote (bit_depth_mask sad) AND 0x07))
         else b3)"

text \<open>Lines 102 and 109-155: byte 3, the \<open>switch\<close> on the format code; it starts as 0.\<close>

definition sad_b3 :: "sad_ext_types \<Rightarrow> short_audio_desc \<Rightarrow> u8" where
  "sad_b3 h sad =
     (let fc = format_code sad
      in if fc = SAD_FMT_CODE_LPCM then to_u8 (promote (bit_depth_mask sad) AND 0x07)
         else if fc = 2 \<or> fc = 3 \<or> fc = 4 \<or> fc = 5 \<or> fc = 6 \<or> fc = 7 \<or> fc = 8 then
           max_bitrate sad
         else if fc = 9 \<or> fc = 10 \<or> fc = 11 \<or> fc = 12 \<or> fc = 13 then
           format_dependent sad
         else if fc = SAD_FMT_CODE_WMA_PRO then to_u8 (promote (wma_profile sad) AND 0x03)
         else if fc = SAD_FMT_CODE_EXTENDED then sad_b3_extended h sad
         else 0)"

text \<open>Line 157: the three bytes packed into the 32-bit descriptor.\<close>

definition sad_encode :: "sad_ext_types \<Rightarrow> short_audio_desc \<Rightarrow> u32" where
  "sad_encode h sad =
     (push_bit 16 (promote (sad_b1 sad)) OR push_bit 8 (promote (sad_b2 sad)))
       OR promote (sad_b3 h sad)"

text \<open>The bytes of a packed descriptor, as a reader of the wire format takes them.\<close>

definition byte1 :: "u32 \<Rightarrow> u8" where
  "byte1 d = ucast (drop_bit 16 d)"

definition byte2 :: "u32 \<Rightarrow> u8" where
  "byte2 d = ucast (drop_bit 8 d)"

definition byte3 :: "u32 \<Rightarrow> u8" where
  "byte3 d = ucast d"

section \<open>The last-activity tracker and the adapter gateway\<close>

type_synonym log_addr = "4 word"

text \<open>
  Modelled from the spec: \<open>struct cec_msg\<close> and its accessors \<open>cec_msg_initiator\<close> and
  \<open>cec_msg_destination\<close> are declared in linux/cec.h, which is not among the sources. The
  spec (section 6) gives the message record its fields: the initiator and the destination
  address, the transmit and the receive status bits, the response-wait timeout and the two
  timestamps; a logical address is a 4-bit identifier (glossary).
\<close>

record cec_msg =
  tx_ts :: u64
  rx_ts :: u64
  timeout :: u32
  initiator :: log_addr
  destination :: log_addr
  rx_status :: u8
  tx_status :: u8

definition cec_msg_initiator :: "cec_msg \<Rightarrow> log_addr" where
  "cec_msg_initiator msg = initiator msg"

definition cec_msg_destination :: "cec_msg \<Rightarrow> log_addr" where
  "cec_msg_destination msg = destination msg"

text \<open>
  Modelled from the spec: \<open>CEC_LOG_ADDR_UNREGISTERED\<close> is a macro of linux/cec.h; the
  glossary of the spec gives the reserved "unregistered" address as 15.
\<close>

definition CEC_LOG_ADDR_UNREGISTERED :: log_addr where
  "CEC_LOG_ADDR_UNREGISTERED = 15"

text \<open>
  The status masks and the broadcast test are declared in linux/cec.h too, and the spec
  does not give them: \<open>cec_named_ioctl\<close> takes them as a parameter. A mask is an \<open>int\<close>
  constant, combined with the promoted status byte.
\<close>

record cec_h =
  CEC_TX_STATUS_OK :: u32
  CEC_RX_STATUS_OK :: u32
  CEC_RX_STATUS_FEATURE_ABORT :: u32
  cec_msg_is_broadcast :: "cec_msg \<Rightarrow> bool"

text \<open>
  Modelled from the spec: \<open>la_info\<close> is declared in cec-follower.h. The spec (section 3)
  gives the tracker one timestamp for each of the 16 logical addresses.
\<close>

record la_info =
  ts :: u64

type_synonym la_info_array = "log_addr \<Rightarrow> la_info"

text \<open>
  The request codes are macros of linux/cec.h, one number for each request;
  \<open>cec_named_ioctl\<close> names two of them.
\<close>

datatype request = CEC_TRANSMIT | CEC_RECEIVE | Other_request nat

text \<open>
  What the system call \<open>ioctl(fd, request, parm)\<close> leaves behind: its return value, the
  value of \<open>errno\<close> after it, and the message in \<open>*parm\<close>.
\<close>

record ioctl_result =
  retval :: int
  errno :: int
  parm :: cec_msg

text \<open>
  Lines 264-297. The function returns the tracker as it leaves it and its return value.
  The trace line of line 274 goes to the standard output only and is left out.
\<close>

definition cec_named_ioctl ::
  "cec_h \<Rightarrow> la_info_array \<Rightarrow> request \<Rightarrow> ioctl_result \<Rightarrow> la_info_array \<times> int" where
  "cec_named_ioctl h la request r =
     (let e = (if retval r = 0 then 0 else errno r);
          la' =
            (if retval r = 0 then
               (let msg = parm r;
                    la1 =
                      (if request = CEC_TRANSMIT
                          \<and> promote (tx_status msg) AND CEC_TX_STATUS_OK h \<noteq> 0
                          \<and> \<not> cec_msg_is_broadcast h msg then
                         (if timeout msg \<noteq> 0 then
                            (if promote (rx_status msg)
                                  AND (CEC_RX_STATUS_OK h OR CEC_RX_STATUS_FEATURE_ABORT h) \<noteq> 0
                             then la(cec_msg_initiator msg :=
                                    (la (cec_msg_initiator msg))\<lparr>ts := rx_ts msg\<rparr>)
                             else la)
                          else la(cec_msg_destination msg :=
                                 (la (cec_msg_destination msg))\<lparr>ts := tx_ts msg\<rparr>))
                       else la)
                in if request = CEC_RECEIVE
                      \<and> cec_msg_initiator msg \<noteq> CEC_LOG_ADDR_UNREGISTERED
                      \<and> promote (rx_status msg) AND CEC_RX_STATUS_OK h \<noteq> 0 then
                     la1(cec_msg_initiator msg :=
                       (la1 (cec_msg_initiator msg))\<lparr>ts := rx_ts msg\<rparr>)
                   else la1)
             else la)
      in (la', if retval r = - 1 then e else if retval r \<noteq> 0 then - 1 else 0))"

section \<open>The ignore option\<close>

text \<open>
  Modelled from the spec: \<open>struct node\<close> is declared in cec-follower.h. The spec
  (section 2) gives the ignore filter a bitmask of logical addresses for each opcode and a
  blanket-ignore flag for each address. The arrays are total maps from the index here; the
  code checks the index before it writes.
\<close>

record node =
  ignore_la :: "nat \<Rightarrow> bool"
  ignore_opcode :: "nat \<Rightarrow> u16"

text \<open>
  \<open>strncmp(s1, s2, n) == 0\<close> and \<open>strchr(s, c)\<close> of the C library, on strings without a
  NUL character. \<open>strchr\<close> returns the rest of the string from the first \<open>c\<close> on, or
  \<open>None\<close> for the null pointer.
\<close>

definition strncmp_eq :: "string \<Rightarrow> string \<Rightarrow> nat \<Rightarrow> bool" where
  "strncmp_eq s1 s2 n = (take n s1 = take n s2)"

definition strchr :: "string \<Rightarrow> char \<Rightarrow> string option" where
  "strchr s c = (case dropWhile (\<lambda>x. x \<noteq> c) s of [] \<Rightarrow> None | p \<Rightarrow> Some p)"

text \<open>
  How the \<open>switch\<close> of the option loop is left: by \<open>break\<close>, to the next option, or by
  a \<open>return\<close> from \<open>main\<close>.
\<close>

datatype ctl = Break | Return int

text \<open>
  Lines 400-430, after \<open>all_opcodes\<close> is known; \<open>opcode_arg\<close> is the string at
  \<open>sep + 1\<close>. The code reads it only where \<open>all_opcodes\<close> is false, and then \<open>sep\<close>
  is not null. \<open>strtoul(s, NULL, 0)\<close> of the C library is a parameter; its result is cut
  to an \<open>unsigned\<close>. The result is the node, the lines written to the standard error
  stream, and how the case ends; \<open>usage\<close> writes to the standard output only.
\<close>

definition ignore_rule ::
  "(string \<Rightarrow> nat) \<Rightarrow> string \<Rightarrow> bool \<Rightarrow> bool \<Rightarrow> string \<Rightarrow> node
     \<Rightarrow> node \<times> string list \<times> ctl" where
  "ignore_rule strtoul optarg all_la all_opcodes opcode_arg nd =
     (let la = (if all_la then 0 else of_nat (strtoul optarg) :: u32)
      in if \<not> all_la \<and> la > 15 then
           (nd, [''invalid logical address (> 15)''], Return 1)
         else
           (let la_mask = (if all_la then 0xffff else push_bit (unat la) 1 :: u32)
            in if \<not> all_opcodes then
                 (let opc = (of_nat (strtoul opcode_arg) :: u32)
                  in if opc > 255 then (nd, [''invalid opcode (> 255)''], Return 1)
                     else (nd\<lparr>ignore_opcode := (ignore_opcode nd)
                              (unat opc := ignore_opcode nd (unat opc) OR ucast la_mask)\<rparr>,
                           [], Break))
               else if all_la \<and> all_opcodes then (nd, [''all,all is invalid''], Return 1)
               else (nd\<lparr>ignore_la := (ignore_la nd)(unat la := True)\<rparr>, [], Break)))"

text \<open>Lines 396-431: the case \<open>OptIgnore\<close> of the option loop of \<open>main\<close>.\<close>

definition OptIgnore_case ::
  "(string \<Rightarrow> nat) \<Rightarrow> string \<Rightarrow> node \<Rightarrow> node \<times> string list \<times> ctl" where
  "OptIgnore_case strtoul optarg nd =
     (let all_la = strncmp_eq optarg ''all'' 3
      in case strchr optarg (CHR '','') of
           None \<Rightarrow> ignore_rule strtoul optarg all_la True [] nd
         | Some sep \<Rightarrow>
             ignore_rule strtoul optarg all_la (strncmp_eq (tl sep) ''all'' 3) (tl sep) nd)"

section \<open>Inputs of the examples\<close>

text \<open>
  The status masks and the broadcast test as the kernel's header has them: the examples
  below run the gateway with this header.
\<close>

definition linux_cec_h :: cec_h where
  "linux_cec_h = \<lparr>CEC_TX_STATUS_OK = 1, CEC_RX_STATUS_OK = 1, CEC_RX_STATUS_FEATURE_ABORT = 4,
     cec_msg_is_broadcast = (\<lambda>msg. cec_msg_destination msg = 15)\<rparr>"

text \<open>A tracker in its initial state: no address has been active.\<close>

definition la_info_init :: la_info_array where
  "la_info_init = (\<lambda>a. \<lparr>ts = 0\<rparr>)"

definition node_init :: node where
  "node_init = \<lparr>ignore_la = (\<lambda>i. False), ignore_opcode = (\<lambda>i. 0)\<rparr>"

text \<open>
  What \<open>strtoul\<close> returns on a string that starts with a decimal number (no sign, no
  leading zero, no overflow): the value of the leading digits.
\<close>

fun leading_decimal :: "nat \<Rightarrow> string \<Rightarrow> nat" where
  "leading_decimal acc [] = acc"
| "leading_decimal acc (c # cs) =
     (let d = (of_char c :: nat)
      in if 48 \<le> d \<and> d \<le> 57 then leading_decimal (10 * acc + (d - 48)) cs else acc)"

text \<open>
  The extension type codes as the CTA-861 table of audio coding extension types assigns
  them; the examples below run the encoder with this header.
\<close>

definition cta_ext_types :: sad_ext_types where
  "cta_ext_types = \<lparr>SAD_EXT_TYPE_MPEG_H_3D_AUDIO = 11, SAD_EXT_TYPE_AC_4 = 12,
     SAD_EXT_TYPE_LPCM_3D_AUDIO = 13\<rparr>"

text \<open>Descriptors of the examples: one for each branch of the encoder that a claim reads.\<close>

abbreviation sad_reserved :: short_audio_desc where
  "sad_reserved \<equiv> \<lparr>num_channels = 2, format_code = 0, sample_freq_mask = 7,
     bit_depth_mask = 4, max_bitrate = 0, format_dependent = 0, wma_profile = 0,
     frame_length_mask = 0, mps = 0, extension_type_code = 0\<rparr>"

abbreviation sad_ac3 :: short_audio_desc where
  "sad_ac3 \<equiv> \<lparr>num_channels = 6, format_code = 2, sample_freq_mask = 7,
     bit_depth_mask = 0, max_bitrate = 80, format_dependent = 0, wma_profile = 0,
     frame_length_mask = 0, mps = 0, extension_type_code = 0\<rparr>"

abbreviation sad_he_aac :: short_audio_desc where
  "sad_he_aac \<equiv> \<lparr>num_channels = 2, format_code = 15, sample_freq_mask = 7,
     bit_depth_mask = 0, max_bitrate = 0, format_dependent = 0, wma_profile = 0,
     frame_length_mask = 2, mps = 1, extension_type_code = 4\<rparr>"

abbreviation sad_aac_surround :: short_audio_desc where
  "sad_aac_surround \<equiv> \<lparr>num_channels = 6, format_code = 15, sample_freq_mask = 7,
     bit_depth_mask = 0, max_bitrate = 0, format_dependent = 0, wma_profile = 0,
     frame_length_mask = 2, mps = 1, extension_type_code = 8\<rparr>"

abbreviation sad_mpeg_h :: short_audio_desc where
  "sad_mpeg_h \<equiv> \<lparr>num_channels = 8, format_code = 15, sample_freq_mask = 4,
     bit_depth_mask = 2, max_bitrate = 0, format_dependent = 5, wma_profile = 0,
     frame_length_mask = 0, mps = 0, extension_type_code = 11\<rparr>"

abbreviation sad_lpcm_3d :: short_audio_desc where
  "sad_lpcm_3d \<equiv> \<lparr>num_channels = 8, format_code = 15, sample_freq_mask = 4,
     bit_depth_mask = 2, max_bitrate = 0, format_dependent = 5, wma_profile = 0,
     frame_length_mask = 0, mps = 0, extension_type_code = 13\<rparr>"

text \<open>
  Messages of the examples, as the kernel leaves them: a transmit that waits for no reply,
  a received message, a message from an unregistered device, a transmit answered by a
  reply, and a transmit whose reply timed out.
\<close>

abbreviation msg_tx_no_reply :: cec_msg where
  "msg_tx_no_reply \<equiv> \<lparr>tx_ts = 1000, rx_ts = 0, timeout = 0, initiator = 4, destination = 3,
     rx_status = 0, tx_status = 1\<rparr>"

abbreviation msg_rx :: cec_msg where
  "msg_rx \<equiv> \<lparr>tx_ts = 0, rx_ts = 2000, timeout = 0, initiator = 3, destination = 4,
     rx_status = 1, tx_status = 0\<rparr>"

abbreviation msg_rx_unregistered :: cec_msg where
  "msg_rx_unregistered \<equiv> \<lparr>tx_ts = 0, rx_ts = 2000, timeout = 0, initiator = 15,
     destination = 4, rx_status = 1, tx_status = 0\<rparr>"

abbreviation msg_tx_reply :: cec_msg where
  "msg_tx_reply \<equiv> \<lparr>tx_ts = 2500, rx_ts = 3000, timeout = 1000, initiator = 3,
     destination = 4, rx_status = 1, tx_status = 1\<rparr>"

abbreviation msg_tx_timeout :: cec_msg where
  "msg_tx_timeout \<equiv> \<lparr>tx_ts = 2500, rx_ts = 0, timeout = 1000, initiator = 4,
     destination = 3, rx_status = 2, tx_status = 1\<rparr>"

abbreviation ioctl_ok :: "cec_msg \<Rightarrow> ioctl_result" where
  "ioctl_ok msg \<equiv> \<lparr>retval = 0, errno = 0, parm = msg\<rparr>"

abbreviation ioctl_enodev :: ioctl_result where
  "ioctl_enodev \<equiv> \<lparr>retval = - 1, errno = 19, parm = msg_tx_no_reply\<rparr>"

section \<open>Masks and casts\<close>

lemma and_1_take_bit: "(x::'a::len word) AND 1 = take_bit 1 x"
  by (simp add: take_bit_eq_mask mask_eq_exp_minus_1)

lemma and_3_take_bit: "(x::'a::len word) AND 3 = take_bit 2 x"
  by (simp add: take_bit_eq_mask mask_eq_exp_minus_1)

lemma and_7_take_bit: "(x::'a::len word) AND 7 = take_bit 3 x"
  by (simp add: take_bit_eq_mask mask_eq_exp_minus_1)

lemma and_15_take_bit: "(x::'a::len word) AND 15 = take_bit 4 x"
  by (simp add: take_bit_eq_mask mask_eq_exp_minus_1)

lemma and_31_take_bit: "(x::'a::len word) AND 31 = take_bit 5 x"
  by (simp add: take_bit_eq_mask mask_eq_exp_minus_1)

lemmas and_take_bit =
  and_1_take_bit and_3_take_bit and_7_take_bit and_15_take_bit and_31_take_bit

text \<open>The promotion to \<open>int\<close> and the cut back to a byte leave the byte-level result.\<close>

lemma to_u8_minus_1: "to_u8 (promote x - 1) = x - 1"
  apply transfer
  subgoal for x using take_bit_diff [of 8 x 1] by simp
  done

lemma to_u8_or: "to_u8 (promote a OR b) = a OR to_u8 b"
  by (rule bit_word_eqI) (auto simp add: bit_simps)

lemma to_u8_take_bit: "to_u8 (take_bit m (promote x)) = take_bit m x"
  by (rule bit_word_eqI) (auto simp add: bit_simps)

lemma to_u8_take_bit_any: "to_u8 (take_bit m y) = take_bit m (to_u8 y)"
  by (rule bit_word_eqI) (auto simp add: bit_simps)

lemma to_u8_push_bit: "to_u8 (push_bit k (take_bit m (promote x))) = push_bit k (take_bit m x)"
  by (rule bit_word_eqI) (auto simp add: bit_simps)

lemmas to_u8_simps = to_u8_or to_u8_take_bit to_u8_push_bit

lemma low_bits_tagged: "take_bit 3 (push_bit 3 (x::u8) OR y) = take_bit 3 y"
  by (rule bit_word_eqI) (auto simp add: bit_simps)

section \<open>The encoder, byte by byte\<close>

lemma byte1_sad_encode: "byte1 (sad_encode h s) = sad_b1 s"
  unfolding byte1_def sad_encode_def
  by (rule bit_word_eqI) (auto simp add: bit_simps dest: bit_imp_le_length)

lemma byte2_sad_encode: "byte2 (sad_encode h s) = sad_b2 s"
  unfolding byte2_def sad_encode_def
  by (rule bit_word_eqI) (auto simp add: bit_simps dest: bit_imp_le_length)

lemma byte3_sad_encode: "byte3 (sad_encode h s) = sad_b3 h s"
  unfolding byte3_def sad_encode_def
  by (rule bit_word_eqI) (auto simp add: bit_simps)

lemma sad_b1_u8:
  "sad_b1 s = take_bit 3 (num_channels s - 1) OR push_bit 3 (take_bit 4 (format_code s))"
  by (simp only: sad_b1_def Let_def and_take_bit to_u8_simps to_u8_take_bit_any to_u8_minus_1)

lemma sad_b3_extended_u8:
  "sad_b3_extended h sad =
     (let etc = extension_type_code sad;
          b3 = push_bit 3 (take_bit 5 etc)
      in if etc = 4 \<or> etc = 5 \<or> etc = 6 then
           b3 OR push_bit 1 (take_bit 2 (frame_length_mask sad))
         else if etc = 8 \<or> etc = 10 then
           (b3 OR push_bit 1 (take_bit 2 (frame_length_mask sad))) OR take_bit 1 (mps sad)
         else if etc = SAD_EXT_TYPE_MPEG_H_3D_AUDIO h \<or> etc = SAD_EXT_TYPE_AC_4 h then
           (b3 OR take_bit 3 (format_dependent sad)) OR take_bit 3 (bit_depth_mask sad)
         else if etc = SAD_EXT_TYPE_LPCM_3D_AUDIO h then
           b3 OR take_bit 3 (bit_depth_mask sad)
         else b3)"
  by (simp only: sad_b3_extended_def Let_def and_take_bit to_u8_simps)

lemma sad_b3_u8:
  "sad_b3 h sad =
     (let fc = format_code sad
      in if fc = 1 then take_bit 3 (bit_depth_mask sad)
         else if fc = 2 \<or> fc = 3 \<or> fc = 4 \<or> fc = 5 \<or> fc = 6 \<or> fc = 7 \<or> fc = 8 then
           max_bitrate sad
         else if fc = 9 \<or> fc = 10 \<or> fc = 11 \<or> fc = 12 \<or> fc = 13 then
           format_dependent sad
         else if fc = 14 then take_bit 2 (wma_profile sad)
         else if fc = 15 then sad_b3_extended h sad
         else 0)"
  by (simp only: sad_b3_def Let_def and_take_bit to_u8_simps SAD_FMT_CODE_LPCM_def
      SAD_FMT_CODE_WMA_PRO_def SAD_FMT_CODE_EXTENDED_def)

lemma sad_b3_extended_frame_length:
  "extension_type_code s \<in> {4, 5, 6} \<Longrightarrow>
   \<exists>t. sad_b3_extended h s = push_bit 3 t OR push_bit 1 (take_bit 2 (frame_length_mask s))"
  by (auto simp add: sad_b3_extended_u8 Let_def)

lemma sad_b3_extended_surround:
  "extension_type_code s \<in> {8, 10} \<Longrightarrow>
   \<exists>t. sad_b3_extended h s =
     push_bit 3 t OR (push_bit 1 (take_bit 2 (frame_length_mask s)) OR take_bit 1 (mps s))"
  by (auto simp add: sad_b3_extended_u8 Let_def or.assoc)

lemma sad_b3_extended_3d:
  "distinct (ext_labels h) \<Longrightarrow>
   extension_type_code s = SAD_EXT_TYPE_MPEG_H_3D_AUDIO h
     \<or> extension_type_code s = SAD_EXT_TYPE_AC_4 h \<Longrightarrow>
   \<exists>t. sad_b3_extended h s =
     push_bit 3 t OR (take_bit 3 (format_dependent s) OR take_bit 3 (bit_depth_mask s))"
  by (auto simp add: sad_b3_extended_u8 Let_def ext_labels_def or.assoc)

lemma sad_b3_extended_lpcm_3d:
  "distinct (ext_labels h) \<Longrightarrow> extension_type_code s = SAD_EXT_TYPE_LPCM_3D_AUDIO h \<Longrightarrow>
   \<exists>t. sad_b3_extended h s = push_bit 3 t OR take_bit 3 (bit_depth_mask s)"
  by (auto simp add: sad_b3_extended_u8 Let_def ext_labels_def)

text \<open>
  Two encodings that the spec works out by hand (section 8, scenarios 1 and 2): a
  two-channel linear PCM descriptor packs to \<open>0x090704\<close>, and byte 3 of an extended
  descriptor of type 8 with frame length mask 2 and the MPS flag is \<open>0x45\<close>.
\<close>

lemma sad_encode_lpcm_example:
  "sad_encode cta_ext_types \<lparr>num_channels = 2, format_code = 1, sample_freq_mask = 0x07,
     bit_depth_mask = 0x04, max_bitrate = 0, format_dependent = 0, wma_profile = 0,
     frame_length_mask = 0, mps = 0, extension_type_code = 0\<rparr> = 0x090704"
  by (simp add: sad_encode_def sad_b1_def sad_b2_def sad_b3_def SAD_FMT_CODE_LPCM_def)

lemma sad_encode_surround_example:
  "byte3 (sad_encode cta_ext_types sad_aac_surround) = 0x45"
  by (simp add: byte3_sad_encode sad_b3_def sad_b3_extended_def SAD_FMT_CODE_LPCM_def
      SAD_FMT_CODE_WMA_PRO_def SAD_FMT_CODE_EXTENDED_def)

text \<open>Bit fields of byte 3: a field above a flag, under the extension type code.\<close>

lemma field_above_flag:
  "k \<le> 6 \<Longrightarrow> k + 2 \<le> j \<Longrightarrow>
   take_bit 2 (drop_bit k (push_bit j (t::u8) OR (push_bit k (take_bit 2 (f::u8)) OR take_bit k (m::u8))))
     = take_bit 2 f"
  by (rule bit_word_eqI) (auto simp add: bit_simps)

lemma flag_below_field:
  "k \<le> j \<Longrightarrow> i \<le> k \<Longrightarrow>
   take_bit i (push_bit j (t::u8) OR (push_bit k (x::u8) OR take_bit i (m::u8))) = take_bit i m"
  by (rule bit_word_eqI) (auto simp add: bit_simps)

lemma frame_length_bits:
  "take_bit 2 (drop_bit 1 (push_bit 3 (t::u8) OR push_bit 1 (take_bit 2 (f::u8)))) = take_bit 2 f"
  using field_above_flag [of 1 3 t f 0] by simp

lemma frame_length_bits_mps:
  "take_bit 2 (drop_bit 1 (push_bit 3 (t::u8) OR (push_bit 1 (take_bit 2 (f::u8)) OR take_bit 1 (m::u8)))) = take_bit 2 f"
  using field_above_flag [of 1 3 t f m] by simp

lemma mps_bit:
  "take_bit 1 (push_bit 3 (t::u8) OR (push_bit 1 (take_bit 2 (f::u8)) OR take_bit 1 (m::u8))) = take_bit 1 m"
  using flag_below_field [of 1 3 1 t "take_bit 2 f" m] by simp

lemma drop_bit_24_unat: "drop_bit 24 (w::u32) = 0 \<Longrightarrow> unat w < 2 ^ 24"
proof -
  assume "drop_bit 24 w = 0"
  then have "unat (w div 2 ^ 24) = 0"
    by (simp add: drop_bit_eq_div)
  then have "unat w div 2 ^ 24 = 0"
    by (simp add: unat_div)
  then show ?thesis
    by (simp add: div_eq_0_iff)
qed

section \<open>Claims on the encoder\<close>

text \<open>
  C5, as the code has it: for every descriptor with format code 0, byte 1 of the encoding
  is the channel count minus one, masked to 3 bits, byte 2 is the sample frequency mask
  (the code writes it for every format code), and byte 3 is 0.
\<close>

theorem sad_encode_reserved_format:
  "format_code s = 0 \<Longrightarrow>
   byte1 (sad_encode h s) = (num_channels s - 1) AND 7
   \<and> byte2 (sad_encode h s) = sample_freq_mask s
   \<and> byte3 (sad_encode h s) = 0"
  by (simp add: byte1_sad_encode byte2_sad_encode byte3_sad_encode sad_b1_u8 sad_b2_def
      sad_b3_u8 and_7_take_bit)

theorem sad_encode_reserved_format_witness:
  "format_code sad_reserved = 0
   \<and> byte1 (sad_encode cta_ext_types sad_reserved) = 1
   \<and> byte2 (sad_encode cta_ext_types sad_reserved) = 7
   \<and> byte3 (sad_encode cta_ext_types sad_reserved) = 0"
  using sad_encode_reserved_format [where s = sad_reserved and h = cta_ext_types]
  by simp

text \<open>
  C5, as the spec states it, asks for byte 2 equal to 0. The descriptor with format code 0
  and sample frequency mask 7 encodes to byte 2 equal to 7.
\<close>

theorem sad_encode_reserved_format_byte2_counterexample:
  "format_code sad_reserved = 0
   \<and> byte2 (sad_encode cta_ext_types sad_reserved) \<noteq> 0"
  by (simp add: byte2_def sad_encode_def sad_b1_def sad_b2_def sad_b3_def cta_ext_types_def
      SAD_FMT_CODE_LPCM_def SAD_FMT_CODE_WMA_PRO_def SAD_FMT_CODE_EXTENDED_def)

text \<open>
  C6: for every descriptor with a format code from 2 to 8, byte 3 of the encoding is the
  maximum bitrate, all 8 bits of it, and it stays the same when the format-dependent byte,
  the WMA profile, the bit depth mask, the frame length mask, the extension type code and
  the MPS flag are replaced by any other values.
\<close>

theorem sad_encode_max_bitrate:
  "format_code s \<in> {2, 3, 4, 5, 6, 7, 8} \<Longrightarrow>
   byte3 (sad_encode h s) = max_bitrate s
   \<and> byte3 (sad_encode h (s\<lparr>format_dependent := fd, wma_profile := wp, bit_depth_mask := bd,
        frame_length_mask := fl, extension_type_code := et, mps := m\<rparr>))
     = byte3 (sad_encode h s)"
  by (auto simp add: byte3_sad_encode sad_b3_u8)

theorem sad_encode_max_bitrate_witness:
  "format_code sad_ac3 \<in> {2, 3, 4, 5, 6, 7, 8}
   \<and> byte3 (sad_encode cta_ext_types sad_ac3) = 80
   \<and> byte3 (sad_encode cta_ext_types (sad_ac3\<lparr>format_dependent := 255, wma_profile := 3,
        bit_depth_mask := 7, frame_length_mask := 3, extension_type_code := 8, mps := 1\<rparr>))
     = byte3 (sad_encode cta_ext_types sad_ac3)"
  using sad_encode_max_bitrate [where s = sad_ac3 and h = cta_ext_types and fd = 255
      and wp = 3 and bd = 7 and fl = 3 and et = 8 and m = 1]
  by simp

text \<open>
  C7: for every descriptor with format code 15: if the extension type code is 4, 5 or 6,
  bit 0 of byte 3 is 0 and bits 1-2 of byte 3 are the frame length mask, masked to 2 bits;
  if the extension type code is 8 or 10, bits 1-2 of byte 3 are the frame length mask,
  masked to 2 bits, and bit 0 of byte 3 is the MPS flag, masked to 1 bit.
\<close>

theorem sad_encode_extended_frame_length:
  "format_code s = 15 \<Longrightarrow>
   (extension_type_code s \<in> {4, 5, 6} \<longrightarrow>
      \<not> bit (byte3 (sad_encode h s)) 0
      \<and> drop_bit 1 (byte3 (sad_encode h s)) AND 3 = frame_length_mask s AND 3)
   \<and> (extension_type_code s \<in> {8, 10} \<longrightarrow>
      drop_bit 1 (byte3 (sad_encode h s)) AND 3 = frame_length_mask s AND 3
      \<and> byte3 (sad_encode h s) AND 1 = mps s AND 1)"
proof (intro conjI impI)
  assume fc: "format_code s = 15"
  have b3: "byte3 (sad_encode h s) = sad_b3_extended h s"
    using fc by (simp add: byte3_sad_encode sad_b3_u8)
  {
    assume "extension_type_code s \<in> {4, 5, 6}"
    then obtain t where t: "sad_b3_extended h s
        = push_bit 3 t OR push_bit 1 (take_bit 2 (frame_length_mask s))"
      using sad_b3_extended_frame_length by blast
    show "\<not> bit (byte3 (sad_encode h s)) 0"
      unfolding b3 t bit_or_iff bit_push_bit_iff by simp
    show "drop_bit 1 (byte3 (sad_encode h s)) AND 3 = frame_length_mask s AND 3"
      unfolding b3 t and_3_take_bit by (rule frame_length_bits)
  }
  {
    assume "extension_type_code s \<in> {8, 10}"
    then obtain t where t: "sad_b3_extended h s
        = push_bit 3 t OR (push_bit 1 (take_bit 2 (frame_length_mask s)) OR take_bit 1 (mps s))"
      using sad_b3_extended_surround by blast
    show "drop_bit 1 (byte3 (sad_encode h s)) AND 3 = frame_length_mask s AND 3"
      unfolding b3 t and_3_take_bit by (rule frame_length_bits_mps)
    show "byte3 (sad_encode h s) AND 1 = mps s AND 1"
      unfolding b3 t and_1_take_bit by (rule mps_bit)
  }
qed

theorem sad_encode_extended_frame_length_witness:
  "format_code sad_he_aac = 15 \<and> extension_type_code sad_he_aac \<in> {4, 5, 6}
   \<and> \<not> bit (byte3 (sad_encode cta_ext_types sad_he_aac)) 0
   \<and> drop_bit 1 (byte3 (sad_encode cta_ext_types sad_he_aac)) AND 3 = 2
   \<and> format_code sad_aac_surround = 15 \<and> extension_type_code sad_aac_surround \<in> {8, 10}
   \<and> drop_bit 1 (byte3 (sad_encode cta_ext_types sad_aac_surround)) AND 3 = 2
   \<and> byte3 (sad_encode cta_ext_types sad_aac_surround) AND 1 = 1"
  using sad_encode_extended_frame_length [where s = sad_he_aac and h = cta_ext_types]
    sad_encode_extended_frame_length [where s = sad_aac_surround and h = cta_ext_types]
  by simp

text \<open>
  C8: for every descriptor with format code 15, under a header whose case labels are
  distinct: if the extension type code is the MPEG-H 3D Audio type or the AC-4 type, bits
  0-2 of byte 3 are the format-dependent byte masked to 3 bits, OR the bit depth mask
  masked to 3 bits; if it is the L-PCM 3D Audio type, bits 0-2 of byte 3 are the bit depth
  mask masked to 3 bits.
\<close>

theorem sad_encode_extended_3d:
  assumes "distinct (ext_labels h)" and "format_code s = 15"
  shows "(extension_type_code s = SAD_EXT_TYPE_MPEG_H_3D_AUDIO h
            \<or> extension_type_code s = SAD_EXT_TYPE_AC_4 h \<longrightarrow>
          byte3 (sad_encode h s) AND 7 = (format_dependent s AND 7) OR (bit_depth_mask s AND 7))
       \<and> (extension_type_code s = SAD_EXT_TYPE_LPCM_3D_AUDIO h \<longrightarrow>
          byte3 (sad_encode h s) AND 7 = bit_depth_mask s AND 7)"
proof (intro conjI impI)
  have b3: "byte3 (sad_encode h s) = sad_b3_extended h s"
    using assms(2) by (simp add: byte3_sad_encode sad_b3_u8)
  {
    assume "extension_type_code s = SAD_EXT_TYPE_MPEG_H_3D_AUDIO h
      \<or> extension_type_code s = SAD_EXT_TYPE_AC_4 h"
    then obtain t where t: "sad_b3_extended h s
        = push_bit 3 t OR (take_bit 3 (format_dependent s) OR take_bit 3 (bit_depth_mask s))"
      using sad_b3_extended_3d [OF assms(1)] by blast
    show "byte3 (sad_encode h s) AND 7 = (format_dependent s AND 7) OR (bit_depth_mask s AND 7)"
      unfolding b3 t and_7_take_bit low_bits_tagged
      by (rule bit_word_eqI) (auto simp add: bit_simps)
  }
  {
    assume "extension_type_code s = SAD_EXT_TYPE_LPCM_3D_AUDIO h"
    then obtain t where t: "sad_b3_extended h s = push_bit 3 t OR take_bit 3 (bit_depth_mask s)"
      using sad_b3_extended_lpcm_3d [OF assms(1)] by blast
    show "byte3 (sad_encode h s) AND 7 = bit_depth_mask s AND 7"
      unfolding b3 t and_7_take_bit low_bits_tagged
      by (rule bit_word_eqI) (auto simp add: bit_simps)
  }
qed

theorem sad_encode_extended_3d_witness:
  "distinct (ext_labels cta_ext_types)
   \<and> format_code sad_mpeg_h = 15
   \<and> extension_type_code sad_mpeg_h = SAD_EXT_TYPE_MPEG_H_3D_AUDIO cta_ext_types
   \<and> byte3 (sad_encode cta_ext_types sad_mpeg_h) AND 7 = 7
   \<and> format_code sad_lpcm_3d = 15
   \<and> extension_type_code sad_lpcm_3d = SAD_EXT_TYPE_LPCM_3D_AUDIO cta_ext_types
   \<and> byte3 (sad_encode cta_ext_types sad_lpcm_3d) AND 7 = 2"
proof -
  have labels: "distinct (ext_labels cta_ext_types)"
    by (simp add: ext_labels_def cta_ext_types_def)
  show ?thesis
    using labels
      sad_encode_extended_3d [OF labels, where s = sad_mpeg_h]
      sad_encode_extended_3d [OF labels, where s = sad_lpcm_3d]
    by (simp add: cta_ext_types_def)
qed

text \<open>
  C10: for every descriptor, whatever its field values, the packed descriptor is less
  than \<open>2 ^ 24\<close>: its top 8 bits are zero, and bit 7 of byte 1 is zero.
\<close>

theorem sad_encode_24_bits:
  "unat (sad_encode h s) < 2 ^ 24
   \<and> drop_bit 24 (sad_encode h s) = 0
   \<and> \<not> bit (byte1 (sad_encode h s)) 7"
proof (intro conjI)
  have top: "drop_bit 24 (sad_encode h s) = 0"
    unfolding sad_encode_def
    by (rule bit_word_eqI) (auto simp add: bit_simps dest: bit_imp_le_length)
  then show "drop_bit 24 (sad_encode h s) = 0" .
  show "unat (sad_encode h s) < 2 ^ 24"
    using top drop_bit_24_unat by blast
  show "\<not> bit (byte1 (sad_encode h s)) 7"
    by (simp add: byte1_sad_encode sad_b1_u8 bit_simps)
qed

section \<open>Claims on the adapter gateway\<close>

lemma and_or_eq_0_iff:
  "(x::'a::len word) AND (a OR b) = 0 \<longleftrightarrow> x AND a = 0 \<and> x AND b = 0"
  by (simp add: bit.conj_disj_distrib or_eq_0_iff)

text \<open>
  C1: when a \<open>CEC_TRANSMIT\<close> returns 0, the transmit status of the message has the OK bit,
  its destination is not the broadcast address and its timeout is zero, then the tracker
  entry of the destination address holds the transmit timestamp of the message, and the
  entries of all other logical addresses are as before.
\<close>

theorem transmit_no_reply_updates_destination:
  assumes "retval r = 0"
    and "promote (tx_status (parm r)) AND CEC_TX_STATUS_OK h \<noteq> 0"
    and "\<not> cec_msg_is_broadcast h (parm r)"
    and "timeout (parm r) = 0"
  shows "ts (fst (cec_named_ioctl h la CEC_TRANSMIT r) (cec_msg_destination (parm r)))
           = tx_ts (parm r)
       \<and> (\<forall>a. a \<noteq> cec_msg_destination (parm r) \<longrightarrow>
             fst (cec_named_ioctl h la CEC_TRANSMIT r) a = la a)"
  using assms by (simp add: cec_named_ioctl_def Let_def)

theorem transmit_no_reply_updates_destination_witness:
  "retval (ioctl_ok msg_tx_no_reply) = 0
   \<and> promote (tx_status msg_tx_no_reply) AND CEC_TX_STATUS_OK linux_cec_h \<noteq> 0
   \<and> \<not> cec_msg_is_broadcast linux_cec_h msg_tx_no_reply
   \<and> timeout msg_tx_no_reply = 0
   \<and> ts (fst (cec_named_ioctl linux_cec_h la_info_init CEC_TRANSMIT
        (ioctl_ok msg_tx_no_reply)) 3) = 1000
   \<and> fst (cec_named_ioctl linux_cec_h la_info_init CEC_TRANSMIT
        (ioctl_ok msg_tx_no_reply)) 4 = la_info_init 4"
proof -
  let ?r = "ioctl_ok msg_tx_no_reply"
  have h1: "retval ?r = 0" by simp
  have h2: "promote (tx_status (parm ?r)) AND CEC_TX_STATUS_OK linux_cec_h \<noteq> 0"
    by (simp add: linux_cec_h_def)
  have h3: "\<not> cec_msg_is_broadcast linux_cec_h (parm ?r)"
    by (simp add: linux_cec_h_def cec_msg_destination_def)
  have h4: "timeout (parm ?r) = 0" by simp
  note t = transmit_no_reply_updates_destination [OF h1 h2 h3 h4, of la_info_init]
  from t have "ts (fst (cec_named_ioctl linux_cec_h la_info_init CEC_TRANSMIT ?r) 3) = 1000"
    by (simp add: cec_msg_destination_def)
  moreover from t have "fst (cec_named_ioctl linux_cec_h la_info_init CEC_TRANSMIT ?r) 4
      = la_info_init 4"
    by (simp add: cec_msg_destination_def)
  ultimately show ?thesis using h1 h2 h3 h4 by simp
qed

text \<open>
  C2: when a \<open>CEC_RECEIVE\<close> returns 0: if the initiator of the message is not 15 and its
  receive status has the OK bit, the tracker entry of the initiator holds the receive
  timestamp of the message (and the other entries are as before); if the initiator is 15
  or the OK bit is clear, the tracker is as before.
\<close>

theorem receive_updates_initiator:
  assumes "retval r = 0"
  shows "(cec_msg_initiator (parm r) \<noteq> 15
            \<and> promote (rx_status (parm r)) AND CEC_RX_STATUS_OK h \<noteq> 0 \<longrightarrow>
          ts (fst (cec_named_ioctl h la CEC_RECEIVE r) (cec_msg_initiator (parm r)))
            = rx_ts (parm r)
          \<and> (\<forall>a. a \<noteq> cec_msg_initiator (parm r) \<longrightarrow>
                fst (cec_named_ioctl h la CEC_RECEIVE r) a = la a))
       \<and> (cec_msg_initiator (parm r) = 15
            \<or> promote (rx_status (parm r)) AND CEC_RX_STATUS_OK h = 0 \<longrightarrow>
          fst (cec_named_ioctl h la CEC_RECEIVE r) = la)"
  using assms by (auto simp add: cec_named_ioctl_def Let_def CEC_LOG_ADDR_UNREGISTERED_def)

theorem receive_updates_initiator_witness:
  "retval (ioctl_ok msg_rx) = 0
   \<and> cec_msg_initiator msg_rx \<noteq> 15
   \<and> promote (rx_status msg_rx) AND CEC_RX_STATUS_OK linux_cec_h \<noteq> 0
   \<and> ts (fst (cec_named_ioctl linux_cec_h la_info_init CEC_RECEIVE (ioctl_ok msg_rx)) 3)
       = 2000
   \<and> fst (cec_named_ioctl linux_cec_h la_info_init CEC_RECEIVE (ioctl_ok msg_rx)) 4
       = la_info_init 4
   \<and> retval (ioctl_ok msg_rx_unregistered) = 0
   \<and> cec_msg_initiator msg_rx_unregistered = 15
   \<and> fst (cec_named_ioctl linux_cec_h la_info_init CEC_RECEIVE
        (ioctl_ok msg_rx_unregistered)) = la_info_init"
proof -
  have h1: "retval (ioctl_ok msg_rx) = 0" by simp
  have h2: "retval (ioctl_ok msg_rx_unregistered) = 0" by simp
  have c1: "cec_msg_initiator msg_rx \<noteq> 15
      \<and> promote (rx_status msg_rx) AND CEC_RX_STATUS_OK linux_cec_h \<noteq> 0"
    by (simp add: cec_msg_initiator_def linux_cec_h_def)
  have c2: "cec_msg_initiator msg_rx_unregistered = 15"
    by (simp add: cec_msg_initiator_def)
  note t1 = receive_updates_initiator [OF h1, of linux_cec_h la_info_init]
  note t2 = receive_updates_initiator [OF h2, of linux_cec_h la_info_init]
  from t1 c1 have "ts (fst (cec_named_ioctl linux_cec_h la_info_init CEC_RECEIVE
      (ioctl_ok msg_rx)) 3) = 2000"
    by (simp add: cec_msg_initiator_def)
  moreover from t1 c1 have "fst (cec_named_ioctl linux_cec_h la_info_init CEC_RECEIVE
      (ioctl_ok msg_rx)) 4 = la_info_init 4"
    by (simp add: cec_msg_initiator_def)
  moreover from t2 c2 have "fst (cec_named_ioctl linux_cec_h la_info_init CEC_RECEIVE
      (ioctl_ok msg_rx_unregistered)) = la_info_init"
    by simp
  ultimately show ?thesis using c1 c2 by simp
qed

text \<open>
  C3: when a \<open>CEC_TRANSMIT\<close> returns 0, the transmit status of the message has the OK bit,
  its destination is not the broadcast address and its timeout is not zero: if the receive
  status has neither the OK bit nor the feature-abort bit, the tracker is as before; if it
  has one of them, the tracker entry of the initiator of the message holds its receive
  timestamp (and the other entries are as before).
\<close>

theorem transmit_with_reply_updates_initiator:
  assumes "retval r = 0"
    and "promote (tx_status (parm r)) AND CEC_TX_STATUS_OK h \<noteq> 0"
    and "\<not> cec_msg_is_broadcast h (parm r)"
    and "timeout (parm r) \<noteq> 0"
  shows "(promote (rx_status (parm r)) AND CEC_RX_STATUS_OK h = 0
            \<and> promote (rx_status (parm r)) AND CEC_RX_STATUS_FEATURE_ABORT h = 0 \<longrightarrow>
          fst (cec_named_ioctl h la CEC_TRANSMIT r) = la)
       \<and> (promote (rx_status (parm r)) AND CEC_RX_STATUS_OK h \<noteq> 0
            \<or> promote (rx_status (parm r)) AND CEC_RX_STATUS_FEATURE_ABORT h \<noteq> 0 \<longrightarrow>
          ts (fst (cec_named_ioctl h la CEC_TRANSMIT r) (cec_msg_initiator (parm r)))
            = rx_ts (parm r)
          \<and> (\<forall>a. a \<noteq> cec_msg_initiator (parm r) \<longrightarrow>
                fst (cec_named_ioctl h la CEC_TRANSMIT r) a = la a))"
  using assms by (auto simp add: cec_named_ioctl_def Let_def and_or_eq_0_iff)

theorem transmit_with_reply_updates_initiator_witness:
  "retval (ioctl_ok msg_tx_timeout) = 0
   \<and> promote (tx_status msg_tx_timeout) AND CEC_TX_STATUS_OK linux_cec_h \<noteq> 0
   \<and> \<not> cec_msg_is_broadcast linux_cec_h msg_tx_timeout
   \<and> timeout msg_tx_timeout \<noteq> 0
   \<and> promote (rx_status msg_tx_timeout) AND CEC_RX_STATUS_OK linux_cec_h = 0
   \<and> promote (rx_status msg_tx_timeout) AND CEC_RX_STATUS_FEATURE_ABORT linux_cec_h = 0
   \<and> fst (cec_named_ioctl linux_cec_h la_info_init CEC_TRANSMIT (ioctl_ok msg_tx_timeout))
       = la_info_init
   \<and> retval (ioctl_ok msg_tx_reply) = 0
   \<and> promote (tx_status msg_tx_reply) AND CEC_TX_STATUS_OK linux_cec_h \<noteq> 0
   \<and> \<not> cec_msg_is_broadcast linux_cec_h msg_tx_reply
   \<and> timeout msg_tx_reply \<noteq> 0
   \<and> promote (rx_status msg_tx_reply) AND CEC_RX_STATUS_OK linux_cec_h \<noteq> 0
   \<and> ts (fst (cec_named_ioctl linux_cec_h la_info_init CEC_TRANSMIT (ioctl_ok msg_tx_reply)) 3)
       = 3000
   \<and> fst (cec_named_ioctl linux_cec_h la_info_init CEC_TRANSMIT (ioctl_ok msg_tx_reply)) 4
       = la_info_init 4"
proof -
  have a1: "retval (ioctl_ok msg_tx_timeout) = 0" by simp
  have a2: "promote (tx_status (parm (ioctl_ok msg_tx_timeout)))
      AND CEC_TX_STATUS_OK linux_cec_h \<noteq> 0"
    by (simp add: linux_cec_h_def)
  have a3: "\<not> cec_msg_is_broadcast linux_cec_h (parm (ioctl_ok msg_tx_timeout))"
    by (simp add: linux_cec_h_def cec_msg_destination_def)
  have a4: "timeout (parm (ioctl_ok msg_tx_timeout)) \<noteq> 0" by simp
  have a5: "promote (rx_status msg_tx_timeout) AND CEC_RX_STATUS_OK linux_cec_h = 0
      \<and> promote (rx_status msg_tx_timeout) AND CEC_RX_STATUS_FEATURE_ABORT linux_cec_h = 0"
    by (simp add: linux_cec_h_def)
  have b1: "retval (ioctl_ok msg_tx_reply) = 0" by simp
  have b2: "promote (tx_status (parm (ioctl_ok msg_tx_reply)))
      AND CEC_TX_STATUS_OK linux_cec_h \<noteq> 0"
    by (simp add: linux_cec_h_def)
  have b3: "\<not> cec_msg_is_broadcast linux_cec_h (parm (ioctl_ok msg_tx_reply))"
    by (simp add: linux_cec_h_def cec_msg_destination_def)
  have b4: "timeout (parm (ioctl_ok msg_tx_reply)) \<noteq> 0" by simp
  have b5: "promote (rx_status msg_tx_reply) AND CEC_RX_STATUS_OK linux_cec_h \<noteq> 0"
    by (simp add: linux_cec_h_def)
  note t1 = transmit_with_reply_updates_initiator [OF a1 a2 a3 a4, of la_info_init]
  note t2 = transmit_with_reply_updates_initiator [OF b1 b2 b3 b4, of la_info_init]
  from t1 a5 have "fst (cec_named_ioctl linux_cec_h la_info_init CEC_TRANSMIT
      (ioctl_ok msg_tx_timeout)) = la_info_init"
    by simp
  moreover from t2 b5 have "ts (fst (cec_named_ioctl linux_cec_h la_info_init CEC_TRANSMIT
      (ioctl_ok msg_tx_reply)) 3) = 3000"
    by (simp add: cec_msg_initiator_def)
  moreover from t2 b5 have "fst (cec_named_ioctl linux_cec_h la_info_init CEC_TRANSMIT
      (ioctl_ok msg_tx_reply)) 4 = la_info_init 4"
    by (simp add: cec_msg_initiator_def)
  ultimately show ?thesis using a2 a3 a5 b2 b3 b5 by simp
qed

text \<open>
  C4: when the system call returns a value other than 0, whatever the request, the tracker
  is as before and \<open>cec_named_ioctl\<close> returns a value other than 0: \<open>errno\<close> when the
  system call returned -1, and -1 otherwise. A system call that returns -1 has set \<open>errno\<close>
  to an error number, which is not 0.
\<close>

theorem ioctl_failure_leaves_tracker:
  assumes "retval r \<noteq> 0" and "retval r = - 1 \<longrightarrow> errno r \<noteq> 0"
  shows "fst (cec_named_ioctl h la request r) = la
       \<and> snd (cec_named_ioctl h la request r) \<noteq> 0
       \<and> snd (cec_named_ioctl h la request r) = (if retval r = - 1 then errno r else - 1)"
  using assms by (simp add: cec_named_ioctl_def Let_def)

theorem ioctl_failure_leaves_tracker_witness:
  "retval ioctl_enodev \<noteq> 0 \<and> retval ioctl_enodev = - 1 \<and> errno ioctl_enodev \<noteq> 0
   \<and> fst (cec_named_ioctl linux_cec_h la_info_init CEC_TRANSMIT ioctl_enodev) = la_info_init
   \<and> snd (cec_named_ioctl linux_cec_h la_info_init CEC_TRANSMIT ioctl_enodev) = 19"
  using ioctl_failure_leaves_tracker [where r = ioctl_enodev and h = linux_cec_h
      and la = la_info_init and request = CEC_TRANSMIT]
  by simp

section \<open>Claims on the ignore option\<close>

lemma strchr_all_suffix:
  "CHR '','' \<notin> set s \<Longrightarrow> strchr (s @ '',all'') (CHR '','') = Some '',all''"
proof -
  assume "CHR '','' \<notin> set s"
  then have "dropWhile (\<lambda>x. x \<noteq> CHR '','') (s @ '',all'')
      = dropWhile (\<lambda>x. x \<noteq> CHR '','') '',all''"
    by (intro dropWhile_append2) auto
  then show ?thesis by (simp add: strchr_def)
qed

text \<open>
  C9: the argument "all,all" of the ignore option ends option processing with
  \<open>return 1\<close> and the line "all,all is invalid" on the standard error stream, and leaves
  the ignore masks and flags of the node as they were. An argument "all,t", where t does
  not start with "all" and \<open>strtoul\<close> reads an opcode of at most 255 from t, is accepted:
  the case ends by \<open>break\<close> with all 16 address bits set in the mask of that opcode. An
  argument "s,all", where s has no comma, the argument does not start with "all" and
  \<open>strtoul\<close> reads an address of at most 15 from it, is accepted: the case ends by
  \<open>break\<close> with the flag of that address set.
\<close>

theorem ignore_all_all_rejected:
  "OptIgnore_case strtoul ''all,all'' nd = (nd, [''all,all is invalid''], Return 1)
   \<and> (\<not> strncmp_eq t ''all'' 3 \<and> (of_nat (strtoul t) :: u32) \<le> 255 \<longrightarrow>
        OptIgnore_case strtoul (''all,'' @ t) nd =
          (nd\<lparr>ignore_opcode := (ignore_opcode nd)
              (unat (of_nat (strtoul t) :: u32) :=
                 ignore_opcode nd (unat (of_nat (strtoul t) :: u32)) OR 0xffff)\<rparr>,
           [], Break))
   \<and> (\<not> strncmp_eq (s @ '',all'') ''all'' 3 \<and> CHR '','' \<notin> set s
        \<and> (of_nat (strtoul (s @ '',all'')) :: u32) \<le> 15 \<longrightarrow>
        OptIgnore_case strtoul (s @ '',all'') nd =
          (nd\<lparr>ignore_la := (ignore_la nd)
              (unat (of_nat (strtoul (s @ '',all'')) :: u32) := True)\<rparr>,
           [], Break))"
proof (intro conjI impI)
  show "OptIgnore_case strtoul ''all,all'' nd = (nd, [''all,all is invalid''], Return 1)"
    by (simp add: OptIgnore_case_def strchr_def strncmp_eq_def ignore_rule_def)
next
  assume a: "\<not> strncmp_eq t ''all'' 3 \<and> (of_nat (strtoul t) :: u32) \<le> 255"
  have all_la: "strncmp_eq (''all,'' @ t) ''all'' 3"
    by (simp add: strncmp_eq_def)
  show "OptIgnore_case strtoul (''all,'' @ t) nd =
          (nd\<lparr>ignore_opcode := (ignore_opcode nd)
              (unat (of_nat (strtoul t) :: u32) :=
                 ignore_opcode nd (unat (of_nat (strtoul t) :: u32)) OR 0xffff)\<rparr>,
           [], Break)"
    using a all_la
    by (simp add: OptIgnore_case_def strchr_def ignore_rule_def Let_def not_less)
next
  assume a: "\<not> strncmp_eq (s @ '',all'') ''all'' 3 \<and> CHR '','' \<notin> set s
        \<and> (of_nat (strtoul (s @ '',all'')) :: u32) \<le> 15"
  have all_opcodes: "strncmp_eq ''all'' ''all'' 3"
    by (simp add: strncmp_eq_def)
  show "OptIgnore_case strtoul (s @ '',all'') nd =
          (nd\<lparr>ignore_la := (ignore_la nd)
              (unat (of_nat (strtoul (s @ '',all'')) :: u32) := True)\<rparr>,
           [], Break)"
    using a all_opcodes
    by (simp add: OptIgnore_case_def strchr_all_suffix ignore_rule_def Let_def not_less)
qed

theorem ignore_all_all_rejected_witness:
  "OptIgnore_case (leading_decimal 0) ''all,all'' node_init
     = (node_init, [''all,all is invalid''], Return 1)
   \<and> \<not> strncmp_eq ''54'' ''all'' 3
   \<and> (of_nat (leading_decimal 0 ''54'') :: u32) \<le> 255
   \<and> snd (OptIgnore_case (leading_decimal 0) ''all,54'' node_init) = ([], Break)
   \<and> ignore_opcode (fst (OptIgnore_case (leading_decimal 0) ''all,54'' node_init)) 54
       = 0xffff
   \<and> \<not> strncmp_eq ''3,all'' ''all'' 3
   \<and> CHR '','' \<notin> set ''3''
   \<and> (of_nat (leading_decimal 0 ''3,all'') :: u32) \<le> 15
   \<and> snd (OptIgnore_case (leading_decimal 0) ''3,all'' node_init) = ([], Break)
   \<and> ignore_la (fst (OptIgnore_case (leading_decimal 0) ''3,all'' node_init)) 3"
  using ignore_all_all_rejected [where strtoul = "leading_decimal 0" and t = "''54''"
      and s = "''3''" and nd = node_init]
  by (simp add: strncmp_eq_def node_init_def)

end
